theory Spec2Isabelle
  imports Complex_Main "HOL-Library.Log_Nat"
begin

section \<open>JavaScript numbers\<close>

text \<open>
  A JavaScript number is an IEEE 754 binary64 value.  A finite non-zero value and the
  positive zero are \<open>Finite v\<close> with \<open>v\<close> the rational it denotes; the negative zero,
  the two infinities and NaN are constructors of their own.  Every arithmetic operation
  computes the exact rational result and rounds it to the nearest binary64 value, ties
  to the even significand (\<open>fl\<close>).
\<close>

datatype double = Finite rat | NegZero | PosInf | NegInf | NaN

definition pow2 :: "int \<Rightarrow> rat" where
  "pow2 k = (if 0 \<le> k then 2 ^ nat k else 1 / 2 ^ nat (- k))"

definition ilog2 :: "rat \<Rightarrow> int" where
  \<comment> \<open>\<open>\<lfloor>log\<^sub>2 x\<rfloor>\<close> of a positive rational\<close>
  "ilog2 x = (case quotient_of x of (p, q) \<Rightarrow>
     (let k = bitlen p - bitlen q in if pow2 k \<le> x then k else k - 1))"

definition round_half_even :: "rat \<Rightarrow> int" where
  "round_half_even y = (let f = \<lfloor>y\<rfloor>; d = y - of_int f in
     if d < 1 / 2 then f else if 1 / 2 < d then f + 1 else if even f then f else f + 1)"

definition signed_zero :: "bool \<Rightarrow> double" where
  "signed_zero neg = (if neg then NegZero else Finite 0)"

definition signed_inf :: "bool \<Rightarrow> double" where
  "signed_inf neg = (if neg then NegInf else PosInf)"

definition fl :: "rat \<Rightarrow> double" where
  \<comment> \<open>round to nearest binary64, ties to even: a significand \<open>q\<close> of at most 53 bits at
      the exponent \<open>e\<close>, exponents from \<open>-1074\<close> (subnormals) up to \<open>971\<close>, overflow to the
      infinities, underflow to the zero of the same sign\<close>
  "fl x = (if x = 0 then Finite 0 else
     (let e = max (ilog2 \<bar>x\<bar> - 52) (- 1074);
          q = round_half_even (x / pow2 e)
      in if 971 < e \<or> (e = 971 \<and> 2 ^ 53 \<le> \<bar>q\<bar>) then signed_inf (x < 0)
         else if q = 0 then signed_zero (x < 0)
         else Finite (of_int q * pow2 e)))"

fun sign_bit :: "double \<Rightarrow> bool" where
  "sign_bit (Finite v) = (v < 0)"
| "sign_bit NegZero = True"
| "sign_bit PosInf = False"
| "sign_bit NegInf = True"
| "sign_bit NaN = False"

fun is_zero :: "double \<Rightarrow> bool" where
  "is_zero (Finite v) = (v = 0)"
| "is_zero NegZero = True"
| "is_zero _ = False"

fun is_inf :: "double \<Rightarrow> bool" where
  "is_inf PosInf = True"
| "is_inf NegInf = True"
| "is_inf _ = False"

fun val :: "double \<Rightarrow> rat" where
  \<comment> \<open>the real number a finite value denotes\<close>
  "val (Finite v) = v"
| "val _ = 0"

fun js_neg :: "double \<Rightarrow> double" where
  "js_neg (Finite v) = (if v = 0 then NegZero else Finite (- v))"
| "js_neg NegZero = Finite 0"
| "js_neg PosInf = NegInf"
| "js_neg NegInf = PosInf"
| "js_neg NaN = NaN"

definition js_add :: "double \<Rightarrow> double \<Rightarrow> double" where
  "js_add x y =
     (if x = NaN \<or> y = NaN then NaN
      else if is_inf x then (if is_inf y \<and> x \<noteq> y then NaN else x)
      else if is_inf y then y
      else if is_zero x \<and> is_zero y then signed_zero (sign_bit x \<and> sign_bit y)
      else fl (val x + val y))"

definition js_sub :: "double \<Rightarrow> double \<Rightarrow> double" where
  "js_sub x y = js_add x (js_neg y)"

definition js_mul :: "double \<Rightarrow> double \<Rightarrow> double" where
  "js_mul x y =
     (if x = NaN \<or> y = NaN then NaN
      else if is_inf x \<or> is_inf y then
        (if is_zero x \<or> is_zero y then NaN else signed_inf (sign_bit x \<noteq> sign_bit y))
      else if is_zero x \<or> is_zero y then signed_zero (sign_bit x \<noteq> sign_bit y)
      else fl (val x * val y))"

definition js_div :: "double \<Rightarrow> double \<Rightarrow> double" where
  "js_div x y =
     (if x = NaN \<or> y = NaN then NaN
      else if is_inf x then (if is_inf y then NaN else signed_inf (sign_bit x \<noteq> sign_bit y))
      else if is_inf y then signed_zero (sign_bit x \<noteq> sign_bit y)
      else if is_zero y then
        (if is_zero x then NaN else signed_inf (sign_bit x \<noteq> sign_bit y))
      else if is_zero x then signed_zero (sign_bit x \<noteq> sign_bit y)
      else fl (val x / val y))"

fun Math_round :: "double \<Rightarrow> double" where
  \<comment> \<open>the nearest integer, a tie going up; \<open>-0\<close> for an argument in \<open>[-0.5, 0)\<close>\<close>
  "Math_round (Finite v) =
     (let n = \<lfloor>v + 1 / 2\<rfloor> in if n = 0 \<and> v < 0 then NegZero else Finite (of_int n))"
| "Math_round d = d"

text \<open>
  The text that \<open>toFixed(2)\<close> produces: \<open>Decimal neg n\<close> stands for the sign, the digits of
  \<open>n div 100\<close>, a point and the two digits of \<open>n mod 100\<close>; \<open>Literal d\<close> is the text that
  \<open>String(d)\<close> gives (for NaN, the infinities, and a magnitude of \<open>10\<^sup>2\<^sup>1\<close> or more), which
  \<open>Number\<close> reads back as \<open>d\<close>.
\<close>

datatype numstr = Decimal bool int | Literal double

fun toFixed2 :: "double \<Rightarrow> numstr" where
  "toFixed2 (Finite v) =
     (if 10 ^ 21 \<le> \<bar>v\<bar> then Literal (Finite v)
      else Decimal (v < 0) \<lfloor>\<bar>v\<bar> * 100 + 1 / 2\<rfloor>)"
| "toFixed2 NegZero = Decimal False 0"
| "toFixed2 d = Literal d"

fun Number :: "numstr \<Rightarrow> double" where
  "Number (Decimal neg n) =
     (if n = 0 then signed_zero neg
      else fl ((if neg then - 1 else 1) * of_int n / 100))"
| "Number (Literal d) = d"

section \<open>JSON values\<close>

text \<open>
  A request body is parsed JSON.  A field that is absent reads as \<open>undefined\<close>, which
  is \<open>None\<close> here.
\<close>

datatype json = JNull | JBool bool | JNum double | JStr string
  | JArr "json list" | JObj "(string \<times> json) list"

type_synonym jsval = "json option"

fun truthy :: "jsval \<Rightarrow> bool" where
  "truthy None = False"
| "truthy (Some JNull) = False"
| "truthy (Some (JBool b)) = b"
| "truthy (Some (JNum d)) = (\<not> is_zero d \<and> d \<noteq> NaN)"
| "truthy (Some (JStr s)) = (s \<noteq> [])"
| "truthy (Some (JArr xs)) = True"
| "truthy (Some (JObj kvs)) = True"

definition or_else :: "jsval \<Rightarrow> json \<Rightarrow> json" where
  \<comment> \<open>\<open>x || d\<close> with a default \<open>d\<close> that is a JSON value\<close>
  "or_else x d = (if truthy x then the x else d)"

fun number_eq :: "double \<Rightarrow> double \<Rightarrow> bool" where
  "number_eq NaN _ = False"
| "number_eq _ NaN = False"
| "number_eq x y = (x = y \<or> (is_zero x \<and> is_zero y))"

fun strict_eq :: "jsval \<Rightarrow> jsval \<Rightarrow> bool" where
  \<comment> \<open>\<open>x === y\<close> for two values that come from two different request bodies: primitives
      compare by value, two arrays or objects are never the same object\<close>
  "strict_eq None None = True"
| "strict_eq (Some JNull) (Some JNull) = True"
| "strict_eq (Some (JBool a)) (Some (JBool b)) = (a = b)"
| "strict_eq (Some (JNum a)) (Some (JNum b)) = number_eq a b"
| "strict_eq (Some (JStr a)) (Some (JStr b)) = (a = b)"
| "strict_eq _ _ = False"

section \<open>Plain objects used as dictionaries\<close>

text \<open>
  \<open>businesses\<close> and \<open>faqs\<close> are plain objects.  A read \<open>obj[k]\<close> finds an own property
  or, failing that, a member that the object inherits along its prototype chain, which
  ends in \<open>Object.prototype\<close>.  A write \<open>obj[k] = v\<close> adds or updates an own property,
  except under the key \<open>__proto__\<close>: that name is an accessor of \<open>Object.prototype\<close>, and
  the write replaces the prototype of \<open>obj\<close> when \<open>v\<close> is an object and does nothing
  otherwise.
\<close>

definition object_prototype_members :: "string list" where
  \<comment> \<open>the function-valued members of \<open>Object.prototype\<close>; \<open>__proto__\<close> is its one accessor\<close>
  "object_prototype_members =
     [''constructor'', ''hasOwnProperty'', ''isPrototypeOf'', ''propertyIsEnumerable'',
      ''toLocaleString'', ''toString'', ''valueOf'', ''__defineGetter__'',
      ''__defineSetter__'', ''__lookupGetter__'', ''__lookupSetter__'']"

definition array_prototype_members :: "string list" where
  \<comment> \<open>the string-keyed members of \<open>Array.prototype\<close> (ECMAScript 2023)\<close>
  "array_prototype_members =
     [''at'', ''concat'', ''constructor'', ''copyWithin'', ''entries'', ''every'', ''fill'',
      ''filter'', ''find'', ''findIndex'', ''findLast'', ''findLastIndex'', ''flat'',
      ''flatMap'', ''forEach'', ''includes'', ''indexOf'', ''join'', ''keys'',
      ''lastIndexOf'', ''length'', ''map'', ''pop'', ''push'', ''reduce'', ''reduceRight'',
      ''reverse'', ''shift'', ''slice'', ''some'', ''sort'', ''splice'', ''toLocaleString'',
      ''toReversed'', ''toSorted'', ''toSpliced'', ''toString'', ''unshift'', ''values'',
      ''with'']"

definition digit_val :: "char \<Rightarrow> nat" where
  "digit_val c = length (takeWhile (\<lambda>d. d \<noteq> c) ''0123456789'')"

definition read_nat :: "string \<Rightarrow> nat" where
  "read_nat s = foldl (\<lambda>a c. 10 * a + digit_val c) 0 s"

definition array_index :: "string \<Rightarrow> nat option" where
  \<comment> \<open>the index that a property key of an array denotes: decimal digits without a
      leading zero\<close>
  "array_index k =
     (if k \<noteq> [] \<and> list_all (\<lambda>c. c \<in> set ''0123456789'') k \<and> (k = ''0'' \<or> hd k \<noteq> CHR ''0'')
      then Some (read_nat k) else None)"

datatype 'o prototype =
    ObjectPrototype  \<comment> \<open>the prototype of an object literal\<close>
  | Replaced 'o      \<comment> \<open>the object that a write to \<open>__proto__\<close> has put in its place\<close>

record ('v, 'o) dictionary =
  own :: "string \<rightharpoonup> 'v"
  proto :: "'o prototype"

text \<open>
  What a read of \<open>faqs[k]\<close> can give: a JSON value that a request posted, or a function
  or object of the runtime, named by its path.  \<open>None\<close> is \<open>undefined\<close>.
\<close>

datatype member = Data json | Builtin string

fun truthy_member :: "member option \<Rightarrow> bool" where
  "truthy_member None = False"
| "truthy_member (Some (Data v)) = truthy (Some v)"
| "truthy_member (Some (Builtin name)) = True"

datatype faq_object = ArrayObject "json list" | PlainObject "(string \<times> json) list"

fun json_of :: "faq_object \<Rightarrow> json" where
  "json_of (ArrayObject xs) = JArr xs"
| "json_of (PlainObject kvs) = JObj kvs"

definition object_prototype_get :: "member \<Rightarrow> string \<Rightarrow> member option" where
  \<comment> \<open>a read that reaches \<open>Object.prototype\<close>; \<open>p\<close> is the prototype of the object that is
      read, which the accessor \<open>__proto__\<close> returns\<close>
  "object_prototype_get p k =
     (if k = ''__proto__'' then Some p
      else if k \<in> set object_prototype_members then Some (Builtin (''Object.prototype.'' @ k))
      else None)"

fun faq_object_get :: "faq_object \<Rightarrow> string \<Rightarrow> member option" where
  \<comment> \<open>a read that reaches a posted array or object: its own properties (of an object
      parsed from JSON the last of several equal keys), then the members it inherits\<close>
  "faq_object_get (ArrayObject xs) k =
     (case array_index k of
        Some i \<Rightarrow> if i < length xs then Some (Data (xs ! i))
                  else object_prototype_get (Data (JArr xs)) k
      | None \<Rightarrow>
          if k = ''length'' then Some (Data (JNum (Finite (of_nat (length xs)))))
          else if k \<in> set array_prototype_members then Some (Builtin (''Array.prototype.'' @ k))
          else object_prototype_get (Data (JArr xs)) k)"
| "faq_object_get (PlainObject kvs) k =
     (case map_of (rev kvs) k of
        Some v \<Rightarrow> Some (Data v)
      | None \<Rightarrow> object_prototype_get (Data (JObj kvs)) k)"

definition faqs_get :: "(json, faq_object) dictionary \<Rightarrow> string \<Rightarrow> member option" where
  \<comment> \<open>\<open>faqs[k]\<close>\<close>
  "faqs_get f k =
     (case own f k of
        Some v \<Rightarrow> Some (Data v)
      | None \<Rightarrow>
          (case proto f of
             ObjectPrototype \<Rightarrow> object_prototype_get (Builtin ''Object.prototype'') k
           | Replaced obj \<Rightarrow> faq_object_get obj k))"

fun has_own_proto_key :: "faq_object prototype \<Rightarrow> bool" where
  \<comment> \<open>an object parsed from JSON can have an own data property named \<open>__proto__\<close>, which
      hides the accessor\<close>
  "has_own_proto_key (Replaced (PlainObject kvs)) = (''__proto__'' \<in> fst ` set kvs)"
| "has_own_proto_key _ = False"

definition faqs_set ::
  "(json, faq_object) dictionary \<Rightarrow> string \<Rightarrow> json \<Rightarrow> (json, faq_object) dictionary" where
  \<comment> \<open>\<open>faqs[k] = v\<close>\<close>
  "faqs_set f k v =
     (if own f k = None \<and> k = ''__proto__'' \<and> \<not> has_own_proto_key (proto f)
      then (case v of
              JArr xs \<Rightarrow> f\<lparr> proto := Replaced (ArrayObject xs) \<rparr>
            | JObj kvs \<Rightarrow> f\<lparr> proto := Replaced (PlainObject kvs) \<rparr>
            | _ \<Rightarrow> f)
      else f\<lparr> own := (own f)(k \<mapsto> v) \<rparr>)"

section \<open>The stores and the tenant gate\<close>

datatype http_error = Unauthorized string  \<comment> \<open>status 401 with its \<open>error\<close> message\<close>

record business =
  biz_name :: jsval
  biz_industry :: jsval
  biz_timezone :: json

record booking =
  bk_id :: string
  bk_businessId :: string
  bk_clientName :: jsval
  bk_contact :: jsval
  bk_service :: jsval
  bk_when :: jsval
  bk_staffId :: json
  bk_notes :: json
  bk_status :: string

record lead =
  ld_id :: string
  ld_businessId :: string
  ld_name :: jsval
  ld_contact :: jsval
  ld_service :: jsval
  ld_budget :: jsval
  ld_source :: jsval
  ld_notes :: jsval

record staff_member =
  sm_id :: string
  sm_businessId :: string
  sm_name :: jsval
  sm_nationalId :: jsval
  sm_pin :: jsval
  sm_role :: json

record attendance_event =
  at_id :: string
  at_staffId :: string
  at_businessId :: string
  at_type :: string
  at_timestamp :: string

record overtime_request =
  ot_id :: string
  ot_staffId :: string
  ot_businessId :: string
  ot_hours :: jsval
  ot_reason :: jsval
  ot_status :: string

text \<open>
  What a read of \<open>businesses[k]\<close> can give: a business record, a field of the business
  record that has become the prototype, or a function or object of the runtime.
\<close>

datatype registry_member = Business business | Field jsval | Inherited string

fun truthy_registry_member :: "registry_member option \<Rightarrow> bool" where
  "truthy_registry_member None = False"
| "truthy_registry_member (Some (Business b)) = True"
| "truthy_registry_member (Some (Field v)) = truthy v"
| "truthy_registry_member (Some (Inherited name)) = True"

definition businesses_get ::
  "(business, business) dictionary \<Rightarrow> string \<Rightarrow> registry_member option" where
  \<comment> \<open>\<open>businesses[k]\<close>\<close>
  "businesses_get r k =
     (case own r k of
        Some b \<Rightarrow> Some (Business b)
      | None \<Rightarrow>
          (case proto r of
             ObjectPrototype \<Rightarrow>
               if k = ''__proto__'' then Some (Inherited ''Object.prototype'')
               else if k \<in> set object_prototype_members
               then Some (Inherited (''Object.prototype.'' @ k))
               else None
           | Replaced b \<Rightarrow>
               if k = ''name'' then Some (Field (biz_name b))
               else if k = ''industry'' then Some (Field (biz_industry b))
               else if k = ''timezone'' then Some (Field (Some (biz_timezone b)))
               else if k = ''__proto__'' then Some (Business b)
               else if k \<in> set object_prototype_members
               then Some (Inherited (''Object.prototype.'' @ k))
               else None))"

definition businesses_set ::
  "(business, business) dictionary \<Rightarrow> string \<Rightarrow> business
    \<Rightarrow> (business, business) dictionary" where
  \<comment> \<open>\<open>businesses[k] = b\<close>\<close>
  "businesses_set r k b =
     (if own r k = None \<and> k = ''__proto__''
      then r\<lparr> proto := Replaced b \<rparr>
      else r\<lparr> own := (own r)(k \<mapsto> b) \<rparr>)"

text \<open>The module-level stores.\<close>

record state =
  businesses :: "(business, business) dictionary"
  bookings :: "booking list"
  leads :: "lead list"
  staff :: "staff_member list"
  attendance :: "attendance_event list"
  overtime :: "overtime_request list"
  faqs :: "(json, faq_object) dictionary"

definition requireBiz :: "state \<Rightarrow> string option \<Rightarrow> http_error + string" where
  \<comment> \<open>the argument is the \<open>X-Business-Id\<close> header, \<open>None\<close> when the request has none\<close>
  "requireBiz st hdr =
     (case hdr of
        None \<Rightarrow> Inl (Unauthorized ''Missing or invalid X-Business-Id'')
      | Some bid \<Rightarrow>
          if bid = [] \<or> \<not> truthy_registry_member (businesses_get (businesses st) bid)
          then Inl (Unauthorized ''Missing or invalid X-Business-Id'')
          else Inr bid)"

section \<open>The forecast\<close>

text \<open>
  The two fields of the request body are JSON numbers where they are present; an absent
  field is \<open>None\<close>, and the destructuring puts the default in its place.
\<close>

record forecast_body =
  fb_baselineWeeklyRevenue :: "double option"
  fb_marketingSpend :: "double option"

record forecast_result =
  baselineWeeklyRevenue :: double
  projectedWeeklyRevenue :: double
  paydayBoost :: double
  trendBoost :: double
  marketingSpend :: double
  estimatedROI :: double

definition forecast :: "double \<Rightarrow> double \<Rightarrow> forecast_result" where
  \<comment> \<open>the handler's body after the destructuring of the request body\<close>
  "forecast baseline spend =
     (let payday = fl (12 / 100);
          trend = fl (5 / 100);
          projected = Math_round (js_mul baseline (js_add (js_add (Finite 1) payday) trend));
          roi = js_div (js_sub (js_sub projected baseline) spend) spend
      in \<lparr> baselineWeeklyRevenue = baseline,
           projectedWeeklyRevenue = projected,
           paydayBoost = payday,
           trendBoost = trend,
           marketingSpend = spend,
           estimatedROI = Number (toFixed2 roi) \<rparr>)"

definition insights_forecast ::
  "state \<Rightarrow> string option \<Rightarrow> forecast_body \<Rightarrow> http_error + forecast_result" where
  "insights_forecast st hdr body =
     (case requireBiz st hdr of
        Inl err \<Rightarrow> Inl err
      | Inr bid \<Rightarrow>
          Inr (forecast
            (case fb_baselineWeeklyRevenue body of None \<Rightarrow> Finite 10000 | Some b \<Rightarrow> b)
            (case fb_marketingSpend body of None \<Rightarrow> Finite 1500 | Some m \<Rightarrow> m)))"

definition stringify_number :: "double \<Rightarrow> double option" where
  \<comment> \<open>how \<open>res.json\<close> writes a number: a finite value as itself (\<open>-0\<close> as \<open>0\<close>), NaN
      and the infinities as \<open>null\<close>, which is \<open>None\<close>\<close>
  "stringify_number d =
     (case d of Finite v \<Rightarrow> Some (Finite v) | NegZero \<Rightarrow> Some (Finite 0) | _ \<Rightarrow> None)"

section \<open>The handlers\<close>

text \<open>
  Every handler takes the stores and returns them updated, next to its response.  A
  call of \<open>uuid()\<close> is an argument \<open>uid\<close> of the handler (the identifier that was
  generated), and so is the text that \<open>now()\<close> returns.
\<close>

subsection \<open>Business bootstrap\<close>

record business_body =
  bb_name :: jsval
  bb_industry :: jsval
  bb_timezone :: jsval

definition en_dash :: string where
  \<comment> \<open>U+2013 in UTF-8\<close>
  "en_dash = [CHR 0xE2, CHR 0x80, CHR 0x93]"

definition default_faqs :: json where
  "default_faqs = JArr
     [JObj [(''q'', JStr ''What are your hours?''),
            (''a'', JStr (''Mon'' @ en_dash @ ''Sat 9:00'' @ en_dash @ ''18:00''))],
      JObj [(''q'', JStr ''Do you accept walk-ins?''),
            (''a'', JStr ''Yes, subject to availability.'')]]"

definition business_create ::
  "string \<Rightarrow> business_body \<Rightarrow> state \<Rightarrow> (string \<times> business) \<times> state" where
  \<comment> \<open>the response reads \<open>businesses[id]\<close> back, which is the record just written\<close>
  "business_create uid body st =
     (let biz = \<lparr> biz_name = bb_name body, biz_industry = bb_industry body,
                  biz_timezone = or_else (bb_timezone body) (JStr ''Africa/Johannesburg'') \<rparr>
      in ((uid, biz),
          st\<lparr> businesses := businesses_set (businesses st) uid biz,
              faqs := faqs_set (faqs st) uid default_faqs \<rparr>))"

subsection \<open>Staff sessions\<close>

text \<open>
  \<open>jsonwebtoken\<close> is a dependency of the program, not part of it: its two functions are
  a parameter of the handlers that call them.  \<open>jwt_sign lib payload secret d t\<close> is the
  token that \<open>jwt.sign(payload, secret, {expiresIn: d})\<close> returns at the time \<open>t\<close>, with \<open>d\<close>
  and \<open>t\<close> in seconds; \<open>jwt_verify lib token secret t\<close> is what \<open>jwt.verify(token, secret)\<close>
  returns at the time \<open>t\<close>, \<open>None\<close> when it throws.
\<close>

record session_claims =
  c_staffId :: string
  c_businessId :: string
  c_role :: json

record user = session_claims +
  iat :: nat
  exp :: nat

record jwt_library =
  jwt_sign :: "session_claims \<Rightarrow> string \<Rightarrow> nat \<Rightarrow> nat \<Rightarrow> string"
  jwt_verify :: "string \<Rightarrow> string \<Rightarrow> nat \<Rightarrow> user option"

definition JWT_SECRET :: "string option \<Rightarrow> string" where
  \<comment> \<open>from the environment variable of that name\<close>
  "JWT_SECRET env = (case env of None \<Rightarrow> ''dev-secret-change-me''
     | Some s \<Rightarrow> if s = [] then ''dev-secret-change-me'' else s)"

definition eight_hours :: nat where
  "eight_hours = 8 * 60 * 60"






fun replace_first :: "string \<Rightarrow> string \<Rightarrow> string \<Rightarrow> string" where
  \<comment> \<open>\<open>s.replace(pat, rep)\<close> with a string pattern: the first occurrence only\<close>
  "replace_first pat rep [] = (if pat = [] then rep else [])"
| "replace_first pat rep (c # cs) =
     (if take (length pat) (c # cs) = pat then rep @ drop (length pat) (c # cs)
      else c # replace_first pat rep cs)"

definition requireStaff ::
  "jwt_library \<Rightarrow> string \<Rightarrow> nat \<Rightarrow> string option \<Rightarrow> http_error + user" where
  \<comment> \<open>the last argument is the \<open>Authorization\<close> header\<close>
  "requireStaff lib secret now auth =
     (case auth of
        None \<Rightarrow> Inl (Unauthorized ''Missing Authorization'')
      | Some a \<Rightarrow>
          if a = [] then Inl (Unauthorized ''Missing Authorization'')
          else (case jwt_verify lib (replace_first ''Bearer '' [] a) secret now of
                  None \<Rightarrow> Inl (Unauthorized ''Invalid token'')
                | Some u \<Rightarrow> Inr u))"

record staff_body =
  sb_name :: jsval
  sb_nationalId :: jsval
  sb_pin :: jsval
  sb_role :: jsval

definition staff_create ::
  "string \<Rightarrow> string option \<Rightarrow> staff_body \<Rightarrow> state \<Rightarrow> (http_error + string) \<times> state" where
  "staff_create uid hdr body st =
     (case requireBiz st hdr of
        Inl err \<Rightarrow> (Inl err, st)
      | Inr bid \<Rightarrow>
          (Inr uid,
           st\<lparr> staff := staff st @
             [\<lparr> sm_id = uid, sm_businessId = bid, sm_name = sb_name body,
                sm_nationalId = sb_nationalId body, sm_pin = sb_pin body,
                sm_role = or_else (sb_role body) (JStr ''staff'') \<rparr>] \<rparr>))"

subsection \<open>Agenda, attendance, overtime\<close>

definition agenda_items :: "'a user_scheme \<Rightarrow> state \<Rightarrow> booking list" where
  "agenda_items u st =
     filter (\<lambda>b. bk_businessId b = c_businessId u
                \<and> strict_eq (Some (bk_staffId b)) (Some (JStr (c_staffId u)))
                \<and> bk_status b \<noteq> ''cancelled'') (bookings st)"

definition staff_agenda ::
  "jwt_library \<Rightarrow> string \<Rightarrow> nat \<Rightarrow> string option \<Rightarrow> state \<Rightarrow> http_error + booking list" where
  "staff_agenda lib secret now auth st =
     (case requireStaff lib secret now auth of
        Inl err \<Rightarrow> Inl err
      | Inr u \<Rightarrow> Inr (agenda_items u st))"

definition staff_clock_in ::
  "jwt_library \<Rightarrow> string \<Rightarrow> nat \<Rightarrow> string option \<Rightarrow> string \<Rightarrow> string \<Rightarrow> state
    \<Rightarrow> (http_error + bool) \<times> state" where
  \<comment> \<open>\<open>ts\<close> is the text of \<open>now()\<close>; the response \<open>{ok: true}\<close> is \<open>Inr True\<close>\<close>
  "staff_clock_in lib secret now auth uid ts st =
     (case requireStaff lib secret now auth of
        Inl err \<Rightarrow> (Inl err, st)
      | Inr u \<Rightarrow>
          (Inr True,
           st\<lparr> attendance := attendance st @
             [\<lparr> at_id = uid, at_staffId = c_staffId u, at_businessId = c_businessId u,
                at_type = ''in'', at_timestamp = ts \<rparr>] \<rparr>))"

definition staff_clock_out ::
  "jwt_library \<Rightarrow> string \<Rightarrow> nat \<Rightarrow> string option \<Rightarrow> string \<Rightarrow> string \<Rightarrow> state
    \<Rightarrow> (http_error + bool) \<times> state" where
  "staff_clock_out lib secret now auth uid ts st =
     (case requireStaff lib secret now auth of
        Inl err \<Rightarrow> (Inl err, st)
      | Inr u \<Rightarrow>
          (Inr True,
           st\<lparr> attendance := attendance st @
             [\<lparr> at_id = uid, at_staffId = c_staffId u, at_businessId = c_businessId u,
                at_type = ''out'', at_timestamp = ts \<rparr>] \<rparr>))"

record overtime_body =
  ob_hours :: jsval
  ob_reason :: jsval

definition staff_overtime ::
  "jwt_library \<Rightarrow> string \<Rightarrow> nat \<Rightarrow> string option \<Rightarrow> string \<Rightarrow> overtime_body \<Rightarrow> state
    \<Rightarrow> (http_error + overtime_request) \<times> state" where
  "staff_overtime lib secret now auth uid body st =
     (case requireStaff lib secret now auth of
        Inl err \<Rightarrow> (Inl err, st)
      | Inr u \<Rightarrow>
          (let entry = \<lparr> ot_id = uid, ot_staffId = c_staffId u, ot_businessId = c_businessId u,
                          ot_hours = ob_hours body, ot_reason = ob_reason body,
                          ot_status = ''pending'' \<rparr>
           in (Inr entry, st\<lparr> overtime := overtime st @ [entry] \<rparr>)))"

subsection \<open>Bookings, leads, FAQs\<close>

record booking_body =
  kb_clientName :: jsval
  kb_contact :: jsval
  kb_service :: jsval
  kb_when :: jsval
  kb_staffId :: jsval
  kb_notes :: jsval

definition post_bookings ::
  "string \<Rightarrow> string option \<Rightarrow> booking_body \<Rightarrow> state \<Rightarrow> (http_error + booking) \<times> state" where
  "post_bookings uid hdr body st =
     (case requireBiz st hdr of
        Inl err \<Rightarrow> (Inl err, st)
      | Inr bid \<Rightarrow>
          (let entry = \<lparr> bk_id = uid, bk_businessId = bid, bk_clientName = kb_clientName body,
                          bk_contact = kb_contact body, bk_service = kb_service body,
                          bk_when = kb_when body, bk_staffId = or_else (kb_staffId body) JNull,
                          bk_notes = or_else (kb_notes body) (JStr []),
                          bk_status = ''confirmed'' \<rparr>
           in (Inr entry, st\<lparr> bookings := bookings st @ [entry] \<rparr>)))"

definition get_bookings :: "string option \<Rightarrow> state \<Rightarrow> http_error + booking list" where
  "get_bookings hdr st =
     (case requireBiz st hdr of
        Inl err \<Rightarrow> Inl err
      | Inr bid \<Rightarrow> Inr (filter (\<lambda>b. bk_businessId b = bid) (bookings st)))"

record lead_body =
  eb_name :: jsval
  eb_contact :: jsval
  eb_service :: jsval
  eb_budget :: jsval
  eb_source :: jsval
  eb_notes :: jsval

definition post_leads ::
  "string \<Rightarrow> string option \<Rightarrow> lead_body \<Rightarrow> state \<Rightarrow> (http_error + lead) \<times> state" where
  "post_leads uid hdr body st =
     (case requireBiz st hdr of
        Inl err \<Rightarrow> (Inl err, st)
      | Inr bid \<Rightarrow>
          (let entry = \<lparr> ld_id = uid, ld_businessId = bid, ld_name = eb_name body,
                          ld_contact = eb_contact body, ld_service = eb_service body,
                          ld_budget = eb_budget body, ld_source = eb_source body,
                          ld_notes = eb_notes body \<rparr>
           in (Inr entry, st\<lparr> leads := leads st @ [entry] \<rparr>)))"

definition get_faqs :: "string option \<Rightarrow> state \<Rightarrow> http_error + member" where
  "get_faqs hdr st =
     (case requireBiz st hdr of
        Inl err \<Rightarrow> Inl err
      | Inr bid \<Rightarrow>
          Inr (case faqs_get (faqs st) bid of
                 None \<Rightarrow> Data (JArr [])
               | Some m \<Rightarrow> if truthy_member (Some m) then m else Data (JArr [])))"

definition post_faqs :: "string option \<Rightarrow> jsval \<Rightarrow> state \<Rightarrow> (http_error + bool) \<times> state" where
  \<comment> \<open>the second argument is \<open>req.body.items\<close>; the response \<open>{ok: true}\<close> is \<open>Inr True\<close>\<close>
  "post_faqs hdr items st =
     (case requireBiz st hdr of
        Inl err \<Rightarrow> (Inl err, st)
      | Inr bid \<Rightarrow>
          (Inr True, st\<lparr> faqs := faqs_set (faqs st) bid (or_else items (JArr [])) \<rparr>))"

section \<open>Sequences of requests\<close>

text \<open>
  The requests that write to a store, each with everything its handler reads: the
  generated identifier, the header of its gate and the body; a request behind the staff
  gate also carries the time at which its token is verified.
\<close>

datatype request =
    BusinessCreate string business_body
  | StaffCreate string "string option" staff_body
  | ClockIn "string option" nat string string
  | ClockOut "string option" nat string string
  | Overtime "string option" nat string overtime_body
  | PostBookings string "string option" booking_body
  | PostLeads string "string option" lead_body
  | PostFaqs "string option" jsval

fun exec :: "jwt_library \<Rightarrow> string \<Rightarrow> request \<Rightarrow> state \<Rightarrow> state" where
  "exec lib secret (BusinessCreate uid body) st = snd (business_create uid body st)"
| "exec lib secret (StaffCreate uid hdr body) st = snd (staff_create uid hdr body st)"
| "exec lib secret (ClockIn auth now uid ts) st = snd (staff_clock_in lib secret now auth uid ts st)"
| "exec lib secret (ClockOut auth now uid ts) st = snd (staff_clock_out lib secret now auth uid ts st)"
| "exec lib secret (Overtime auth now uid body) st = snd (staff_overtime lib secret now auth uid body st)"
| "exec lib secret (PostBookings uid hdr body) st = snd (post_bookings uid hdr body st)"
| "exec lib secret (PostLeads uid hdr body) st = snd (post_leads uid hdr body st)"
| "exec lib secret (PostFaqs hdr items) st = snd (post_faqs hdr items st)"

fun run :: "jwt_library \<Rightarrow> string \<Rightarrow> request list \<Rightarrow> state \<Rightarrow> state" where
  "run lib secret [] st = st"
| "run lib secret (r # rs) st = run lib secret rs (exec lib secret r st)"

definition session_tenant :: "jwt_library \<Rightarrow> string \<Rightarrow> nat \<Rightarrow> string option \<Rightarrow> string option" where
  \<comment> \<open>the \<open>businessId\<close> of \<open>req.user\<close>, when the staff gate lets the request through\<close>
  "session_tenant lib secret now auth =
     (case requireStaff lib secret now auth of Inl err \<Rightarrow> None | Inr u \<Rightarrow> Some (c_businessId u))"

fun tenant_of :: "jwt_library \<Rightarrow> string \<Rightarrow> request \<Rightarrow> string option" where
  \<comment> \<open>the tenant a request is scoped to: the value of its \<open>X-Business-Id\<close> header, or the
      tenant of its session; the bootstrap of a business has none\<close>
  "tenant_of lib secret (BusinessCreate uid body) = None"
| "tenant_of lib secret (StaffCreate uid hdr body) = hdr"
| "tenant_of lib secret (ClockIn auth now uid ts) = session_tenant lib secret now auth"
| "tenant_of lib secret (ClockOut auth now uid ts) = session_tenant lib secret now auth"
| "tenant_of lib secret (Overtime auth now uid body) = session_tenant lib secret now auth"
| "tenant_of lib secret (PostBookings uid hdr body) = hdr"
| "tenant_of lib secret (PostLeads uid hdr body) = hdr"
| "tenant_of lib secret (PostFaqs hdr items) = hdr"

definition without_tenant :: "jwt_library \<Rightarrow> string \<Rightarrow> string \<Rightarrow> request list \<Rightarrow> request list" where
  \<comment> \<open>a sequence of requests with every request scoped to the tenant \<open>a\<close> taken out\<close>
  "without_tenant lib secret a rs = filter (\<lambda>r. tenant_of lib secret r \<noteq> Some a) rs"

section \<open>The library contract and a small instance of it\<close>

definition session_of :: "session_claims \<Rightarrow> nat \<Rightarrow> nat \<Rightarrow> user" where
  \<comment> \<open>the decoded token: the payload with the times of issue and of expiry\<close>
  "session_of p d now =
     \<lparr> c_staffId = c_staffId p, c_businessId = c_businessId p, c_role = c_role p,
       iat = now, exp = now + d \<rparr>"

definition jwt_contract ::
  "jwt_library \<Rightarrow> session_claims \<Rightarrow> nat \<Rightarrow> nat \<Rightarrow> string \<Rightarrow> string \<Rightarrow> bool" where
  \<comment> \<open>what \<open>jsonwebtoken\<close> promises about the token signed for \<open>p\<close> with the key \<open>k\<close> at the
      time \<open>now\<close>, when it is verified with the key \<open>k'\<close>: accepted with its payload under
      the same key until it expires, rejected otherwise\<close>
  "jwt_contract lib p d now k k' \<longleftrightarrow>
     (\<forall>t. jwt_verify lib (jwt_sign lib p k d now) k' t =
        (if k' = k \<and> t < now + d then Some (session_of p d now) else None))"

fun occurs :: "string \<Rightarrow> string \<Rightarrow> bool" where
  \<comment> \<open>\<open>s.includes(pat)\<close>\<close>
  "occurs pat [] = (pat = [])"
| "occurs pat (c # cs) = (take (length pat) (c # cs) = pat \<or> occurs pat cs)"

text \<open>
  An instance of the interface with unsigned tokens: the fields of the token in clear,
  joined by dots, the key first.  It serves to run the handlers on concrete requests.
\<close>

fun fields :: "string \<Rightarrow> string list" where
  "fields [] = [[]]"
| "fields (c # cs) =
     (if c = CHR ''.'' then [] # fields cs
      else (case fields cs of [] \<Rightarrow> [[c]] | f # fs \<Rightarrow> (c # f) # fs))"

definition digit :: "nat \<Rightarrow> char" where
  "digit n = ''0123456789'' ! n"

function show_nat :: "nat \<Rightarrow> string" where
  "show_nat n = (if n < 10 then [digit n] else show_nat (n div 10) @ [digit (n mod 10)])"
  by pat_completeness auto
termination
  by (relation "measure (\<lambda>n. n)") auto

definition plain_sign :: "session_claims \<Rightarrow> string \<Rightarrow> nat \<Rightarrow> nat \<Rightarrow> string" where
  "plain_sign p k d now =
     k @ ''.'' @ c_staffId p @ ''.'' @ c_businessId p @ ''.''
       @ (case c_role p of JStr r \<Rightarrow> r | _ \<Rightarrow> []) @ ''.'' @ show_nat now @ ''.'' @ show_nat (now + d)"

definition plain_verify :: "string \<Rightarrow> string \<Rightarrow> nat \<Rightarrow> user option" where
  "plain_verify tok k t =
     (case fields tok of
        [k', sid, bid, r, i, e] \<Rightarrow>
          if k' = k \<and> t < read_nat e
          then Some \<lparr> c_staffId = sid, c_businessId = bid, c_role = JStr r,
                      iat = read_nat i, exp = read_nat e \<rparr>
          else None
      | _ \<Rightarrow> None)"

definition plain_jwt :: jwt_library where
  "plain_jwt = \<lparr> jwt_sign = plain_sign, jwt_verify = plain_verify \<rparr>"

section \<open>A small run of the program\<close>

definition initial_state :: state where
  \<comment> \<open>the stores when the module is loaded\<close>
  "initial_state =
     \<lparr> businesses = \<lparr> own = Map.empty, proto = ObjectPrototype \<rparr>,
       bookings = [], leads = [], staff = [], attendance = [], overtime = [],
       faqs = \<lparr> own = Map.empty, proto = ObjectPrototype \<rparr> \<rparr>"

definition salon :: business_body where
  "salon = \<lparr> bb_name = Some (JStr ''Salon''), bb_industry = Some (JStr ''beauty''),
     bb_timezone = None \<rparr>"

definition jo :: staff_body where
  "jo = \<lparr> sb_name = Some (JStr ''Jo''), sb_nationalId = Some (JStr ''123''),
     sb_pin = Some (JStr ''9999''), sb_role = None \<rparr>"

definition two_tenants :: state where
  \<comment> \<open>two businesses \<open>b1\<close> and \<open>b2\<close>, and the staff member \<open>s1\<close> of \<open>b1\<close>\<close>
  "two_tenants = run plain_jwt ''k''
     [BusinessCreate ''b1'' salon, BusinessCreate ''b2'' salon,
      StaffCreate ''s1'' (Some ''b1'') jo] initial_state"



section \<open>The specification's reading of a credential match\<close>


section \<open>Stores that differ in what one tenant wrote\<close>

definition agree_except :: "string \<Rightarrow> state \<Rightarrow> state \<Rightarrow> bool" where
  \<comment> \<open>two states of the stores that differ at most in the bookings of the tenant \<open>a\<close>, in
      the own property \<open>a\<close> of \<open>faqs\<close>, and in the leads, staff, attendance and overtime\<close>
  "agree_except a s t \<longleftrightarrow>
     businesses s = businesses t
     \<and> filter (\<lambda>x. bk_businessId x \<noteq> a) (bookings s) = filter (\<lambda>x. bk_businessId x \<noteq> a) (bookings t)
     \<and> proto (faqs s) = proto (faqs t)
     \<and> (\<forall>k. k \<noteq> a \<longrightarrow> own (faqs s) k = own (faqs t) k)"

definition walk_in :: booking_body where
  "walk_in = \<lparr> kb_clientName = Some (JStr ''Ann''), kb_contact = None, kb_service = None,
     kb_when = None, kb_staffId = Some (JStr ''s1''), kb_notes = None \<rparr>"

section \<open>The factor of the forecast\<close>

definition lift_factor :: rat where
  \<comment> \<open>the binary64 sum \<open>1 + 0.12 + 0.05\<close>, which is \<open>1.1700000000000002\<close>\<close>
  "lift_factor = 5269211564023481 / 4503599627370496"

section \<open>The small run, computed\<close>

lemma two_tenants_eq:
  "two_tenants = \<lparr> businesses =
       \<lparr> own = [''b1'' \<mapsto> \<lparr> biz_name = Some (JStr ''Salon''),
                              biz_industry = Some (JStr ''beauty''),
                              biz_timezone = JStr ''Africa/Johannesburg'' \<rparr>,
                ''b2'' \<mapsto> \<lparr> biz_name = Some (JStr ''Salon''),
                              biz_industry = Some (JStr ''beauty''),
                              biz_timezone = JStr ''Africa/Johannesburg'' \<rparr>],
         proto = ObjectPrototype \<rparr>,
     bookings = [], leads = [],
     staff = [\<lparr> sm_id = ''s1'', sm_businessId = ''b1'', sm_name = Some (JStr ''Jo''),
               sm_nationalId = Some (JStr ''123''), sm_pin = Some (JStr ''9999''),
               sm_role = JStr ''staff'' \<rparr>],
     attendance = [], overtime = [],
     faqs = \<lparr> own = [''b1'' \<mapsto> default_faqs, ''b2'' \<mapsto> default_faqs],
              proto = ObjectPrototype \<rparr> \<rparr>"
  by (simp add: two_tenants_def requireBiz_def businesses_get_def initial_state_def
      business_create_def businesses_set_def faqs_set_def staff_create_def salon_def jo_def
      Let_def or_else_def)

lemma gate_b1: "requireBiz two_tenants (Some ''b1'') = Inr ''b1''"
  by (simp add: two_tenants_eq requireBiz_def businesses_get_def)

lemma gate_b2: "requireBiz two_tenants (Some ''b2'') = Inr ''b2''"
  by (simp add: two_tenants_eq requireBiz_def businesses_get_def)



section \<open>Login\<close>


























section \<open>The forecast\<close>

lemma forecast_default_values:
  "forecast (Finite 10000) (Finite 1500) =
     \<lparr> baselineWeeklyRevenue = Finite 10000, projectedWeeklyRevenue = Finite 11700,
       paydayBoost = fl (12 / 100), trendBoost = fl (5 / 100),
       marketingSpend = Finite 1500, estimatedROI = fl (13 / 100) \<rparr>"
  by code_simp

text \<open>
  C4.  Under a tenant that passes the gate, the forecast for a baseline weekly revenue of
  10000 and a marketing spend of 1500 projects a weekly revenue of 11700 and estimates the
  return at 0.13, the number that the decimal text \<open>0.13\<close> denotes.
\<close>

theorem forecast_value:
  assumes "requireBiz st hdr = Inr bid"
  shows "\<exists>r. insights_forecast st hdr
            \<lparr> fb_baselineWeeklyRevenue = Some (Finite 10000),
              fb_marketingSpend = Some (Finite 1500) \<rparr> = Inr r
          \<and> projectedWeeklyRevenue r = Finite 11700
          \<and> estimatedROI r = fl (13 / 100)"
  using assms by (simp add: insights_forecast_def forecast_default_values)

theorem forecast_value_witness:
  "\<exists>r. insights_forecast two_tenants (Some ''b1'')
            \<lparr> fb_baselineWeeklyRevenue = Some (Finite 10000),
              fb_marketingSpend = Some (Finite 1500) \<rparr> = Inr r
          \<and> projectedWeeklyRevenue r = Finite 11700
          \<and> estimatedROI r = fl (13 / 100)"
  using forecast_value [OF gate_b1] .

text \<open>
  C7.  A forecast request whose body has neither field is answered as the request with
  a baseline of 10000 and a spend of 1500 is; under a tenant that passes the gate the
  answer is the forecast of 10000 and 1500: it reports the baseline 10000 and the spend
  1500 that were put in place of the missing fields, the projected revenue 11700 and the
  return 0.13.
\<close>

theorem forecast_default_substitution:
  "insights_forecast st hdr \<lparr> fb_baselineWeeklyRevenue = None, fb_marketingSpend = None \<rparr>
     = insights_forecast st hdr
         \<lparr> fb_baselineWeeklyRevenue = Some (Finite 10000),
           fb_marketingSpend = Some (Finite 1500) \<rparr>
   \<and> (\<forall>bid. requireBiz st hdr = Inr bid \<longrightarrow>
        insights_forecast st hdr \<lparr> fb_baselineWeeklyRevenue = None, fb_marketingSpend = None \<rparr>
          = Inr (forecast (Finite 10000) (Finite 1500))
        \<and> forecast (Finite 10000) (Finite 1500)
          = \<lparr> baselineWeeklyRevenue = Finite 10000, projectedWeeklyRevenue = Finite 11700,
              paydayBoost = fl (12 / 100), trendBoost = fl (5 / 100),
              marketingSpend = Finite 1500, estimatedROI = fl (13 / 100) \<rparr>)"
  using forecast_default_values by (simp add: insights_forecast_def split: sum.split)

theorem forecast_default_substitution_witness:
  "insights_forecast two_tenants (Some ''b1'')
     \<lparr> fb_baselineWeeklyRevenue = None, fb_marketingSpend = None \<rparr>
   = Inr \<lparr> baselineWeeklyRevenue = Finite 10000, projectedWeeklyRevenue = Finite 11700,
           paydayBoost = fl (12 / 100), trendBoost = fl (5 / 100),
           marketingSpend = Finite 1500, estimatedROI = fl (13 / 100) \<rparr>"
  using forecast_default_substitution [of two_tenants "Some ''b1''"] gate_b1 by metis

lemma js_div_by_zero: "is_zero y \<Longrightarrow> js_div x y \<in> {PosInf, NegInf, NaN}"
  by (cases y; cases x) (auto simp: js_div_def signed_inf_def)

lemma Number_toFixed2_nonfinite: "d \<in> {PosInf, NegInf, NaN} \<Longrightarrow> Number (toFixed2 d) = d"
  by auto

lemma forecast_zero_spend_value:
  "estimatedROI (forecast (Finite 10000) (Finite 0)) = PosInf"
  by code_simp

text \<open>
  C6, as the code has it.  With a marketing spend of zero (of either sign) the handler
  has no guard: under a tenant that passes the gate it succeeds, whatever the baseline,
  and the estimated return is the result of the division by zero, one of \<open>+Infinity\<close>,
  \<open>-Infinity\<close> and NaN, which \<open>toFixed\<close> and \<open>Number\<close> hand on unchanged and which the
  JSON response writes as \<open>null\<close>.
\<close>

theorem forecast_zero_spend:
  assumes "requireBiz st hdr = Inr bid" and "is_zero spend"
  shows "\<exists>r. insights_forecast st hdr
            \<lparr> fb_baselineWeeklyRevenue = b, fb_marketingSpend = Some spend \<rparr> = Inr r
          \<and> estimatedROI r \<in> {PosInf, NegInf, NaN}
          \<and> stringify_number (estimatedROI r) = None"
proof -
  let ?base = "case b of None \<Rightarrow> Finite 10000 | Some x \<Rightarrow> x"
  let ?r = "forecast ?base spend"
  have run: "insights_forecast st hdr
      \<lparr> fb_baselineWeeklyRevenue = b, fb_marketingSpend = Some spend \<rparr> = Inr ?r"
    using assms(1) by (simp add: insights_forecast_def)
  obtain x where roi: "estimatedROI ?r = Number (toFixed2 (js_div x spend))"
    by (simp add: forecast_def Let_def)
  have nf: "js_div x spend \<in> {PosInf, NegInf, NaN}"
    using assms(2) by (rule js_div_by_zero)
  then have "estimatedROI ?r \<in> {PosInf, NegInf, NaN}"
    using roi Number_toFixed2_nonfinite by metis
  moreover from this have "stringify_number (estimatedROI ?r) = None"
    by (auto simp: stringify_number_def)
  ultimately show ?thesis using run by blast
qed

theorem forecast_zero_spend_witness:
  "\<exists>r. insights_forecast two_tenants (Some ''b1'')
            \<lparr> fb_baselineWeeklyRevenue = Some (Finite 10000),
              fb_marketingSpend = Some (Finite 0) \<rparr> = Inr r
          \<and> estimatedROI r \<in> {PosInf, NegInf, NaN}
          \<and> stringify_number (estimatedROI r) = None"
  using forecast_zero_spend [OF gate_b1, of "Finite 0" "Some (Finite 10000)"] by simp

text \<open>
  The claim C6 as the specification words it fails: a baseline of 10000 with a spend of 0
  is answered with a success whose estimated return is \<open>+Infinity\<close>.
\<close>

theorem forecast_zero_spend_counterexample:
  "insights_forecast two_tenants (Some ''b1'')
      \<lparr> fb_baselineWeeklyRevenue = Some (Finite 10000), fb_marketingSpend = Some (Finite 0) \<rparr>
     = Inr (forecast (Finite 10000) (Finite 0))
   \<and> estimatedROI (forecast (Finite 10000) (Finite 0)) = PosInf"
  using gate_b1 by (simp add: insights_forecast_def forecast_zero_spend_value)

section \<open>FAQs\<close>

lemma requireBiz_faqs_update [simp]: "requireBiz (st\<lparr> faqs := f \<rparr>) hdr = requireBiz st hdr"
  by (simp add: requireBiz_def split: option.split)

lemma proto_key_in_array:
  "faq_object_get (ArrayObject xs) ''__proto__'' = Some (Data (JArr xs))"
  by (simp add: array_index_def array_prototype_members_def object_prototype_get_def)

lemma faqs_get_set_array: "faqs_get (faqs_set f k (JArr xs)) k = Some (Data (JArr xs))"
proof (cases "own f k = None \<and> k = ''__proto__'' \<and> \<not> has_own_proto_key (proto f)")
  case True
  then show ?thesis
    by (simp add: faqs_get_def faqs_set_def proto_key_in_array del: faq_object_get.simps)
next
  case False
  then show ?thesis by (auto simp: faqs_get_def faqs_set_def)
qed

lemma get_faqs_post_array:
  assumes "requireBiz st hdr = Inr bid"
  shows "get_faqs hdr (snd (post_faqs hdr (Some (JArr xs)) st)) = Inr (Data (JArr xs))"
  using assms by (simp add: post_faqs_def get_faqs_def or_else_def faqs_get_set_array)

text \<open>
  C8.  Under a tenant that passes the gate, posting a list of FAQ items succeeds and
  replaces the tenant's list: the tenant's next \<open>GET /faqs\<close> returns exactly the posted
  list, so that nothing outside the posted list, an older entry in particular, is in it.
\<close>

theorem faq_replacement:
  assumes "requireBiz st hdr = Inr bid"
  shows "fst (post_faqs hdr (Some (JArr items)) st) = Inr True
       \<and> get_faqs hdr (snd (post_faqs hdr (Some (JArr items)) st)) = Inr (Data (JArr items))
       \<and> (\<forall>e. e \<notin> set items \<longrightarrow>
            (\<forall>xs. get_faqs hdr (snd (post_faqs hdr (Some (JArr items)) st)) = Inr (Data (JArr xs))
               \<longrightarrow> e \<notin> set xs))"
  using assms get_faqs_post_array [OF assms, of items] by (simp add: post_faqs_def)

theorem faq_replacement_witness:
  "fst (post_faqs (Some ''b1'') (Some (JArr [JStr ''x''])) two_tenants) = Inr True
   \<and> get_faqs (Some ''b1'') (snd (post_faqs (Some ''b1'') (Some (JArr [JStr ''x''])) two_tenants))
       = Inr (Data (JArr [JStr ''x'']))
   \<and> get_faqs (Some ''b1'') two_tenants = Inr (Data default_faqs)"
  using faq_replacement [OF gate_b1, of "[JStr ''x'']"] gate_b1
  by (simp add: get_faqs_def faqs_get_def two_tenants_eq default_faqs_def)

text \<open>
  C9.  Under a tenant that passes the gate, a \<open>POST /faqs\<close> whose body has no \<open>items\<close>
  field, or a falsy one, is not rejected: it answers \<open>{ok: true}\<close> and stores the empty
  list as the tenant's FAQ list, which the tenant's next \<open>GET /faqs\<close> returns.
\<close>

theorem faq_clearing:
  assumes "requireBiz st hdr = Inr bid" and "\<not> truthy items"
  shows "fst (post_faqs hdr items st) = Inr True
       \<and> faqs_get (faqs (snd (post_faqs hdr items st))) bid = Some (Data (JArr []))
       \<and> get_faqs hdr (snd (post_faqs hdr items st)) = Inr (Data (JArr []))"
  using assms by (simp add: post_faqs_def get_faqs_def or_else_def faqs_get_set_array)

theorem faq_clearing_witness:
  "get_faqs (Some ''b1'') two_tenants = Inr (Data default_faqs)
   \<and> fst (post_faqs (Some ''b1'') None two_tenants) = Inr True
   \<and> get_faqs (Some ''b1'') (snd (post_faqs (Some ''b1'') None two_tenants)) = Inr (Data (JArr []))
   \<and> get_faqs (Some ''b1'') (snd (post_faqs (Some ''b1'') (Some (JStr [])) two_tenants))
       = Inr (Data (JArr []))"
  using faq_clearing [OF gate_b1, of None] faq_clearing [OF gate_b1, of "Some (JStr [])"] gate_b1
  by (simp add: get_faqs_def faqs_get_def two_tenants_eq default_faqs_def)

section \<open>Sessions\<close>

lemma replace_first_prefix: "pat \<noteq> [] \<Longrightarrow> replace_first pat rep (pat @ s) = rep @ s"
  by (cases pat) auto

lemma replace_first_absent: "\<not> occurs pat s \<Longrightarrow> replace_first pat rep s = s"
  by (induction s) auto

lemma requireStaff_bearer:
  "requireStaff lib secret t (Some (''Bearer '' @ s)) =
     (case jwt_verify lib s secret t of
        None \<Rightarrow> Inl (Unauthorized ''Invalid token'') | Some u \<Rightarrow> Inr u)"
  using replace_first_prefix [of "''Bearer ''" "[]" s] by (simp add: requireStaff_def)

lemma requireStaff_raw:
  "tok \<noteq> [] \<Longrightarrow> \<not> occurs ''Bearer '' tok \<Longrightarrow>
   requireStaff lib secret t (Some tok) =
     (case jwt_verify lib tok secret t of
        None \<Rightarrow> Inl (Unauthorized ''Invalid token'') | Some u \<Rightarrow> Inr u)"
  by (simp add: requireStaff_def replace_first_absent)

lemma plain_contract_s1_k:
  "jwt_contract plain_jwt \<lparr>c_staffId = ''s1'', c_businessId = ''b1'', c_role = JStr ''staff''\<rparr>
     eight_hours 1000 ''k'' ''k''"
  by (simp add: jwt_contract_def plain_jwt_def plain_sign_def plain_verify_def eight_hours_def
      read_nat_def session_of_def digit_def digit_val_def)


lemma plain_token_s1:
  "jwt_sign plain_jwt \<lparr>c_staffId = ''s1'', c_businessId = ''b1'', c_role = JStr ''staff''\<rparr>
     ''k'' eight_hours 1000 = ''k.s1.b1.staff.1000.29800''"
  by (simp add: plain_jwt_def plain_sign_def eight_hours_def digit_def)





text \<open>
  C10.  A token that the library accepts (signed with the server's secret, not expired)
  and that is not empty and does not contain the text \<open>Bearer\<close> followed by a space, as
  no compact token does, passes the staff gate with the same session whether the header
  is the prefix followed by the token or the token alone; and of two prefixes the gate
  strips the first only.
\<close>

theorem bearer_prefix_optional:
  assumes contract: "jwt_contract lib p d now secret secret"
    and unexpired: "t < now + d"
    and nonempty: "jwt_sign lib p secret d now \<noteq> []"
    and compact: "\<not> occurs ''Bearer '' (jwt_sign lib p secret d now)"
  shows "requireStaff lib secret t (Some (''Bearer '' @ jwt_sign lib p secret d now))
           = Inr (session_of p d now)
       \<and> requireStaff lib secret t (Some (jwt_sign lib p secret d now))
           = Inr (session_of p d now)
       \<and> replace_first ''Bearer '' [] (''Bearer '' @ ''Bearer '' @ jwt_sign lib p secret d now)
           = ''Bearer '' @ jwt_sign lib p secret d now"
proof -
  have v: "jwt_verify lib (jwt_sign lib p secret d now) secret t = Some (session_of p d now)"
    using contract unexpired by (simp add: jwt_contract_def)
  have r: "replace_first ''Bearer '' [] (''Bearer '' @ ''Bearer '' @ jwt_sign lib p secret d now)
           = ''Bearer '' @ jwt_sign lib p secret d now"
    using replace_first_prefix [of "''Bearer ''" "[]" "''Bearer '' @ jwt_sign lib p secret d now"]
    by simp
  show ?thesis
    unfolding requireStaff_bearer requireStaff_raw [OF nonempty compact] v r by simp
qed

theorem bearer_prefix_optional_witness:
  "requireStaff plain_jwt ''k'' 2000 (Some ''Bearer k.s1.b1.staff.1000.29800'')
     = Inr (session_of \<lparr>c_staffId = ''s1'', c_businessId = ''b1'', c_role = JStr ''staff''\<rparr>
              eight_hours 1000)
   \<and> requireStaff plain_jwt ''k'' 2000 (Some ''k.s1.b1.staff.1000.29800'')
     = Inr (session_of \<lparr>c_staffId = ''s1'', c_businessId = ''b1'', c_role = JStr ''staff''\<rparr>
              eight_hours 1000)"
proof -
  note roundtrip = bearer_prefix_optional [OF plain_contract_s1_k, of 2000, unfolded plain_token_s1]
  have "requireStaff plain_jwt ''k'' 2000 (Some (''Bearer '' @ ''k.s1.b1.staff.1000.29800''))
     = Inr (session_of \<lparr>c_staffId = ''s1'', c_businessId = ''b1'', c_role = JStr ''staff''\<rparr>
              eight_hours 1000)
   \<and> requireStaff plain_jwt ''k'' 2000 (Some ''k.s1.b1.staff.1000.29800'')
     = Inr (session_of \<lparr>c_staffId = ''s1'', c_businessId = ''b1'', c_role = JStr ''staff''\<rparr>
              eight_hours 1000)
   \<and> replace_first ''Bearer '' [] (''Bearer '' @ ''Bearer '' @ ''k.s1.b1.staff.1000.29800'')
     = ''Bearer '' @ ''k.s1.b1.staff.1000.29800''"
    by (rule roundtrip) (simp_all add: eight_hours_def)
  then show ?thesis by simp
qed

section \<open>Tenant isolation\<close>

lemma requireBiz_cong: "businesses s = businesses t \<Longrightarrow> requireBiz s hdr = requireBiz t hdr"
  by (simp add: requireBiz_def split: option.split)

lemma requireBiz_Inr: "requireBiz s hdr = Inr bid \<Longrightarrow> hdr = Some bid"
  by (auto simp: requireBiz_def split: option.splits if_splits)

lemma agree_except_refl: "agree_except a s s"
  by (simp add: agree_except_def)

lemma agree_except_trans:
  "agree_except a s t \<Longrightarrow> agree_except a t u \<Longrightarrow> agree_except a s u"
  by (simp add: agree_except_def)

lemma faqs_set_agree:
  assumes "a \<noteq> ''__proto__''" and "proto f = proto g" and "\<forall>k. k \<noteq> a \<longrightarrow> own f k = own g k"
  shows "proto (faqs_set f c v) = proto (faqs_set g c v)
       \<and> (\<forall>k. k \<noteq> a \<longrightarrow> own (faqs_set f c v) k = own (faqs_set g c v) k)"
proof (cases "c = a")
  case True
  with assms show ?thesis by (simp add: faqs_set_def)
next
  case False
  with assms have "own f c = own g c" by simp
  with assms show ?thesis by (auto simp: faqs_set_def split: json.splits)
qed

lemma faqs_set_own_key:
  assumes "a \<noteq> ''__proto__''"
  shows "proto (faqs_set f a v) = proto f \<and> (\<forall>k. k \<noteq> a \<longrightarrow> own (faqs_set f a v) k = own f k)"
  using assms by (simp add: faqs_set_def)

lemma step_consistent:
  assumes "a \<noteq> ''__proto__''" and "agree_except a s t"
  shows "agree_except a (exec lib secret r s) (exec lib secret r t)"
proof -
  from assms(2) have biz: "businesses s = businesses t" by (simp add: agree_except_def)
  note gate = requireBiz_cong [OF biz]
  from assms(2) have f: "proto (faqs s) = proto (faqs t)"
      "\<forall>k. k \<noteq> a \<longrightarrow> own (faqs s) k = own (faqs t) k"
    by (simp_all add: agree_except_def)
  note fs = faqs_set_agree [OF assms(1) f]
  show ?thesis
  proof (cases r)
    case (BusinessCreate uid body)
    then show ?thesis
      using assms(2) fs by (simp add: agree_except_def business_create_def Let_def)
  next
    case (PostFaqs hdr items)
    then show ?thesis
      using assms(2) fs by (simp add: agree_except_def post_faqs_def gate split: sum.splits)
  qed (use assms(2) in \<open>auto simp: agree_except_def staff_create_def staff_clock_in_def
          staff_clock_out_def staff_overtime_def post_bookings_def post_leads_def
          gate Let_def split: sum.splits\<close>)
qed

lemma local_respect:
  assumes "tenant_of lib secret r = Some a" and "a \<noteq> ''__proto__''"
  shows "agree_except a (exec lib secret r s) s"
proof (cases r)
  case (PostFaqs hdr items)
  with assms(1) have "hdr = Some a" by simp
  then show ?thesis
    using PostFaqs faqs_set_own_key [OF assms(2)]
    by (auto simp: agree_except_def post_faqs_def split: sum.splits dest!: requireBiz_Inr)
qed (use assms(1) in \<open>auto simp: agree_except_def staff_create_def staff_clock_in_def
        staff_clock_out_def staff_overtime_def post_bookings_def post_leads_def
        Let_def split: sum.splits dest!: requireBiz_Inr\<close>)

lemma run_without_tenant:
  assumes "a \<noteq> ''__proto__''"
  shows "agree_except a s t \<Longrightarrow>
    agree_except a (run lib secret rs s) (run lib secret (without_tenant lib secret a rs) t)"
proof (induction rs arbitrary: s t)
  case Nil
  then show ?case by (simp add: without_tenant_def)
next
  case (Cons r rs)
  show ?case
  proof (cases "tenant_of lib secret r = Some a")
    case True
    have "agree_except a (exec lib secret r s) t"
      using local_respect [OF True assms] Cons.prems by (rule agree_except_trans)
    from Cons.IH [OF this] True show ?thesis by (simp add: without_tenant_def)
  next
    case False
    have "agree_except a (exec lib secret r s) (exec lib secret r t)"
      using assms Cons.prems by (rule step_consistent)
    from Cons.IH [OF this] False show ?thesis by (simp add: without_tenant_def)
  qed
qed

lemma bookings_of_other:
  assumes "agree_except a s t" and "a \<noteq> b"
  shows "filter (\<lambda>x. bk_businessId x = b) (bookings s)
       = filter (\<lambda>x. bk_businessId x = b) (bookings t)"
proof -
  have sub: "filter (\<lambda>x. bk_businessId x = b) xs
      = filter (\<lambda>x. bk_businessId x = b) (filter (\<lambda>x. bk_businessId x \<noteq> a) xs)" for xs
    using assms(2) by (induction xs) auto
  from assms(1) have e: "filter (\<lambda>x. bk_businessId x \<noteq> a) (bookings s)
      = filter (\<lambda>x. bk_businessId x \<noteq> a) (bookings t)"
    by (simp add: agree_except_def)
  have "filter (\<lambda>x. bk_businessId x = b) (bookings s)
      = filter (\<lambda>x. bk_businessId x = b) (filter (\<lambda>x. bk_businessId x \<noteq> a) (bookings s))"
    by (rule sub)
  also have "\<dots> = filter (\<lambda>x. bk_businessId x = b) (filter (\<lambda>x. bk_businessId x \<noteq> a) (bookings t))"
    by (simp only: e)
  also have "\<dots> = filter (\<lambda>x. bk_businessId x = b) (bookings t)"
    by (rule sub [symmetric])
  finally show ?thesis .
qed

lemma view_get_bookings:
  assumes "agree_except a s t" and "a \<noteq> b"
  shows "get_bookings (Some b) s = get_bookings (Some b) t"
proof -
  from assms(1) have "businesses s = businesses t" by (simp add: agree_except_def)
  then have g: "requireBiz s (Some b) = requireBiz t (Some b)" by (rule requireBiz_cong)
  show ?thesis
  proof (cases "requireBiz t (Some b)")
    case (Inl err)
    with g show ?thesis by (simp add: get_bookings_def)
  next
    case (Inr bid)
    then have "bid = b" by (auto dest: requireBiz_Inr)
    with Inr g bookings_of_other [OF assms] show ?thesis by (simp add: get_bookings_def)
  qed
qed

lemma faqs_get_of_other:
  assumes "agree_except a s t" and "a \<noteq> b"
  shows "faqs_get (faqs s) b = faqs_get (faqs t) b"
proof -
  from assms have "own (faqs s) b = own (faqs t) b" and "proto (faqs s) = proto (faqs t)"
    by (simp_all add: agree_except_def)
  then show ?thesis by (simp only: faqs_get_def)
qed

lemma view_get_faqs:
  assumes "agree_except a s t" and "a \<noteq> b"
  shows "get_faqs (Some b) s = get_faqs (Some b) t"
proof -
  from assms(1) have "businesses s = businesses t" by (simp add: agree_except_def)
  then have g: "requireBiz s (Some b) = requireBiz t (Some b)" by (rule requireBiz_cong)
  show ?thesis
  proof (cases "requireBiz t (Some b)")
    case (Inl err)
    with g show ?thesis by (simp add: get_faqs_def)
  next
    case (Inr bid)
    then have "bid = b" by (auto dest: requireBiz_Inr)
    with Inr g faqs_get_of_other [OF assms] show ?thesis by (simp add: get_faqs_def)
  qed
qed

lemma agenda_items_filter:
  "agenda_items u s =
     filter (\<lambda>x. strict_eq (Some (bk_staffId x)) (Some (JStr (c_staffId u)))
                \<and> bk_status x \<noteq> ''cancelled'')
       (filter (\<lambda>x. bk_businessId x = c_businessId u) (bookings s))"
  by (simp add: agenda_items_def conj_commute cong: conj_cong)

lemma view_agenda_items:
  assumes "agree_except a s t" and "a \<noteq> b" and "c_businessId u = b"
  shows "agenda_items u s = agenda_items u t"
proof -
  have "filter (\<lambda>x. bk_businessId x = c_businessId u) (bookings s)
      = filter (\<lambda>x. bk_businessId x = c_businessId u) (bookings t)"
    using bookings_of_other [OF assms(1,2)] assms(3) by simp
  then show ?thesis
    unfolding agenda_items_filter by (rule arg_cong)
qed

lemma view_agenda:
  "agree_except a s t \<Longrightarrow> a \<noteq> b \<Longrightarrow> session_tenant lib secret now auth = Some b \<Longrightarrow>
   staff_agenda lib secret now auth s = staff_agenda lib secret now auth t"
  by (auto simp: staff_agenda_def session_tenant_def view_agenda_items split: sum.splits)

lemma booking_of_other_tenant:
  assumes "fst (post_bookings uid (Some a) body s) = Inr e" and "a \<noteq> b"
  shows "(\<forall>xs. get_bookings (Some b) t = Inr xs \<longrightarrow> e \<notin> set xs)
       \<and> (\<forall>lib secret now auth xs. session_tenant lib secret now auth = Some b \<longrightarrow>
            staff_agenda lib secret now auth t = Inr xs \<longrightarrow> e \<notin> set xs)"
proof -
  from assms(1) have "bk_businessId e = a"
    by (auto simp: post_bookings_def Let_def split: sum.splits dest!: requireBiz_Inr)
  with assms(2) show ?thesis
    by (auto simp: get_bookings_def staff_agenda_def session_tenant_def agenda_items_def
        split: sum.splits dest!: requireBiz_Inr)
qed

lemma exec_keeps_proto_unregistered:
  "own (businesses s) ''__proto__'' = None
   \<Longrightarrow> own (businesses (exec lib secret r s)) ''__proto__'' = None"
  by (cases r)
     (auto simp: business_create_def businesses_set_def staff_create_def staff_clock_in_def
        staff_clock_out_def staff_overtime_def post_bookings_def post_leads_def post_faqs_def
        Let_def split: sum.splits)

lemma run_keeps_proto_unregistered:
  "own (businesses s) ''__proto__'' = None
   \<Longrightarrow> own (businesses (run lib secret rs s)) ''__proto__'' = None"
  by (induction rs arbitrary: s) (simp_all add: exec_keeps_proto_unregistered)

lemma business_ids_not_proto:
  "own (businesses (run lib secret rs initial_state)) a \<noteq> None \<Longrightarrow> a \<noteq> ''__proto__''"
  using run_keeps_proto_unregistered [of initial_state lib secret rs]
  by (auto simp: initial_state_def)

lemma proto_header_leaks:
  "get_faqs (Some ''toString'') initial_state = Inr (Builtin ''Object.prototype.toString'')
   \<and> get_faqs (Some ''toString'')
       (snd (post_faqs (Some ''__proto__'')
          (Some (JObj [(''toString'', JArr [JStr ''leak''])])) initial_state))
     = Inr (Data (JArr [JStr ''leak'']))"
  by (simp add: get_faqs_def post_faqs_def requireBiz_def businesses_get_def faqs_get_def
      faqs_set_def initial_state_def or_else_def object_prototype_get_def
      object_prototype_members_def)

text \<open>
  C1.  Let \<open>a\<close> and \<open>b\<close> be two distinct tenants, \<open>a\<close> a business id: an identifier of a
  registered business is an own key of \<open>businesses\<close> and is never the name \<open>__proto__\<close>
  (\<open>business_ids_not_proto\<close>), under which a write to \<open>faqs\<close> replaces the prototype that
  every tenant without a list of its own reads (\<open>proto_header_leaks\<close>).  After any
  sequence of requests, what \<open>GET /bookings\<close> and \<open>GET /faqs\<close> return under \<open>b\<close>, and what
  \<open>GET /staff/agenda\<close> returns to a session of \<open>b\<close>, is what they return after the same
  sequence without the requests scoped to \<open>a\<close>: nothing that a request of \<open>a\<close> creates (a
  booking, a lead, a staff record, an attendance event, an overtime request, a FAQ list)
  reaches a list of \<open>b\<close>.  And a booking created under \<open>a\<close> is an element of no list of
  bookings returned under \<open>b\<close> or to a session of \<open>b\<close>, in any state of the stores.
\<close>

theorem tenant_isolation:
  assumes "a \<noteq> b" and "a \<noteq> ''__proto__''"
  shows "get_bookings (Some b) (run lib secret rs st)
           = get_bookings (Some b) (run lib secret (without_tenant lib secret a rs) st)
       \<and> get_faqs (Some b) (run lib secret rs st)
           = get_faqs (Some b) (run lib secret (without_tenant lib secret a rs) st)
       \<and> (\<forall>now auth. session_tenant lib secret now auth = Some b \<longrightarrow>
            staff_agenda lib secret now auth (run lib secret rs st)
              = staff_agenda lib secret now auth
                  (run lib secret (without_tenant lib secret a rs) st))
       \<and> (\<forall>uid body s e t. fst (post_bookings uid (Some a) body s) = Inr e \<longrightarrow>
            (\<forall>xs. get_bookings (Some b) t = Inr xs \<longrightarrow> e \<notin> set xs)
            \<and> (\<forall>now auth xs. session_tenant lib secret now auth = Some b \<longrightarrow>
                 staff_agenda lib secret now auth t = Inr xs \<longrightarrow> e \<notin> set xs))"
proof -
  have v: "agree_except a (run lib secret rs st)
      (run lib secret (without_tenant lib secret a rs) st)"
    using assms(2) agree_except_refl by (rule run_without_tenant)
  show ?thesis
    using view_get_bookings [OF v assms(1)] view_get_faqs [OF v assms(1)]
      view_agenda [OF v assms(1)] booking_of_other_tenant [OF _ assms(1)]
    by blast
qed

theorem tenant_isolation_witness:
  "get_bookings (Some ''b2'')
      (run plain_jwt ''k''
         [PostBookings ''k1'' (Some ''b1'') walk_in, PostFaqs (Some ''b1'') None,
          PostBookings ''k2'' (Some ''b2'') walk_in] two_tenants)
     = get_bookings (Some ''b2'')
         (run plain_jwt ''k'' [PostBookings ''k2'' (Some ''b2'') walk_in] two_tenants)
   \<and> get_faqs (Some ''b2'')
      (run plain_jwt ''k''
         [PostBookings ''k1'' (Some ''b1'') walk_in, PostFaqs (Some ''b1'') None,
          PostBookings ''k2'' (Some ''b2'') walk_in] two_tenants)
     = Inr (Data default_faqs)"
proof -
  have ne: "''b1'' \<noteq> ''b2''" and np: "''b1'' \<noteq> ''__proto__''" by simp_all
  have p: "without_tenant plain_jwt ''k'' ''b1''
      [PostBookings ''k1'' (Some ''b1'') walk_in, PostFaqs (Some ''b1'') None,
       PostBookings ''k2'' (Some ''b2'') walk_in] = [PostBookings ''k2'' (Some ''b2'') walk_in]"
    by (simp add: without_tenant_def)
  have f: "get_faqs (Some ''b2'')
      (run plain_jwt ''k'' [PostBookings ''k2'' (Some ''b2'') walk_in] two_tenants)
     = Inr (Data default_faqs)"
    by (simp add: post_bookings_def gate_b2 Let_def get_faqs_def requireBiz_def
        businesses_get_def faqs_get_def two_tenants_eq or_else_def default_faqs_def)
  show ?thesis
    using tenant_isolation [OF ne np, of plain_jwt "''k''"
        "[PostBookings ''k1'' (Some ''b1'') walk_in, PostFaqs (Some ''b1'') None,
          PostBookings ''k2'' (Some ''b2'') walk_in]" two_tenants]
    unfolding p f by blast
qed

section \<open>Rounding to binary64\<close>

lemma pow2_powi: "pow2 k = 2 powi k"
  by (simp add: pow2_def power_int_def power_inverse inverse_eq_divide power_one_over)

lemma pow2_pos: "0 < pow2 k"
  by (simp add: pow2_powi)

lemma pow2_mono: "a \<le> b \<Longrightarrow> pow2 a \<le> pow2 b"
  by (simp add: pow2_powi power_int_increasing)

lemma pow2_add: "pow2 (a + b) = pow2 a * pow2 b"
  by (simp add: pow2_powi power_int_add)

lemma pow2_ge_one: "0 \<le> k \<Longrightarrow> 1 \<le> pow2 k"
  by (simp add: pow2_def)

lemma ilog2_le:
  assumes "0 < x"
  shows "pow2 (ilog2 x) \<le> x"
proof -
  obtain p q where pq: "quotient_of x = (p, q)" by (cases "quotient_of x")
  then have q: "0 < q" and x: "x = of_int p / of_int q"
    by (simp_all add: quotient_of_denom_pos quotient_of_div)
  with assms have p: "0 < p" by (simp add: zero_less_divide_iff)
  let ?k = "bitlen p - bitlen q"
  show ?thesis
  proof (cases "pow2 ?k \<le> x")
    case True
    then show ?thesis by (simp add: ilog2_def pq)
  next
    case False
    have bp: "1 \<le> bitlen p" using p by (simp add: bitlen_alt_def)
    have "(2::int) ^ nat (bitlen p - 1) \<le> p" using bitlen_bounds [OF p] by simp
    then have "(of_int (2 ^ nat (bitlen p - 1)) :: rat) \<le> of_int p" by (simp only: of_int_le_iff)
    then have lo: "(2::rat) powi (bitlen p - 1) \<le> of_int p"
      using bp by (simp add: power_int_def)
    have "q < 2 ^ nat (bitlen q)" using bitlen_bounds [OF q] by simp
    then have "(of_int q :: rat) < of_int (2 ^ nat (bitlen q))" by (simp only: of_int_less_iff)
    then have hi: "of_int q \<le> (2::rat) powi (bitlen q)"
      using bitlen_nonneg [of q] by (simp add: power_int_def)
    have "?k - 1 = (bitlen p - 1) - bitlen q" by simp
    moreover have "(2::rat) powi ((bitlen p - 1) - bitlen q)
        = 2 powi (bitlen p - 1) / 2 powi (bitlen q)"
      by (rule power_int_diff) simp
    ultimately have "pow2 (?k - 1) = 2 powi (bitlen p - 1) / 2 powi (bitlen q)"
      by (simp only: pow2_powi)
    also have "\<dots> \<le> of_int p / of_int q"
      using lo hi q p by (intro frac_le) simp_all
    also have "\<dots> = x" by (simp only: x)
    finally have "pow2 (?k - 1) \<le> x" .
    with False show ?thesis by (simp add: ilog2_def pq Let_def)
  qed
qed

lemma ilog2_less:
  assumes "0 < x"
  shows "x < pow2 (ilog2 x + 1)"
proof -
  obtain p q where pq: "quotient_of x = (p, q)" by (cases "quotient_of x")
  then have q: "0 < q" and x: "x = of_int p / of_int q"
    by (simp_all add: quotient_of_denom_pos quotient_of_div)
  with assms have p: "0 < p" by (simp add: zero_less_divide_iff)
  let ?k = "bitlen p - bitlen q"
  show ?thesis
  proof (cases "pow2 ?k \<le> x")
    case True
    have bq: "1 \<le> bitlen q" using q by (simp add: bitlen_alt_def)
    have "p < 2 ^ nat (bitlen p)" using bitlen_bounds [OF p] by simp
    then have "(of_int p :: rat) < of_int (2 ^ nat (bitlen p))" by (simp only: of_int_less_iff)
    then have hi: "of_int p < (2::rat) powi (bitlen p)"
      using bitlen_nonneg [of p] by (simp add: power_int_def)
    have "(2::int) ^ nat (bitlen q - 1) \<le> q" using bitlen_bounds [OF q] by simp
    then have "(of_int (2 ^ nat (bitlen q - 1)) :: rat) \<le> of_int q" by (simp only: of_int_le_iff)
    then have lo: "(2::rat) powi (bitlen q - 1) \<le> of_int q"
      using bq by (simp add: power_int_def)
    have "x = of_int p / of_int q" by (rule x)
    also have "\<dots> < 2 powi (bitlen p) / 2 powi (bitlen q - 1)"
      using lo hi q p by (intro frac_less) simp_all
    also have "\<dots> = 2 powi (bitlen p - (bitlen q - 1))"
      by (rule power_int_diff [symmetric]) simp
    also have "bitlen p - (bitlen q - 1) = ?k + 1" by simp
    finally have "x < pow2 (?k + 1)" by (simp only: pow2_powi)
    with True show ?thesis by (simp add: ilog2_def pq Let_def)
  next
    case False
    then show ?thesis by (simp add: ilog2_def pq Let_def)
  qed
qed

lemma round_half_even_ge: "\<lfloor>y\<rfloor> \<le> round_half_even y"
  by (simp add: round_half_even_def Let_def)

lemma round_half_even_le: "of_int (round_half_even y) \<le> y + 1 / 2"
  unfolding round_half_even_def Let_def by (auto; linarith)

lemma fl_mid_range:
  assumes "1 \<le> x" and "x < 2 ^ 52"
  obtains r where "fl x = Finite r" and "r \<le> x + x / 2 ^ 53"
    and "\<And>h :: int. of_int h - 1 / 2 \<le> x \<Longrightarrow> of_int h - 1 / 2 \<le> r"
proof -
  define e where "e = max (ilog2 \<bar>x\<bar> - 52) (- 1074)"
  define q where "q = round_half_even (x / pow2 e)"
  from assms have xpos: "0 < x" and xabs: "\<bar>x\<bar> = x" by simp_all
  have p52: "pow2 (- 52) = 1 / 2 ^ 52" by (simp add: pow2_def)
  have A: "pow2 e \<le> x / 2 ^ 52"
  proof (cases "- 1074 \<le> ilog2 x - 52")
    case True
    then have "e = ilog2 x + (- 52)" by (simp add: e_def xabs)
    then have "pow2 e = pow2 (ilog2 x) * (1 / 2 ^ 52)" by (simp only: pow2_add p52)
    also have "\<dots> \<le> x * (1 / 2 ^ 52)"
      using ilog2_le [OF xpos] by (intro mult_right_mono) simp_all
    finally show ?thesis by simp
  next
    case False
    then have "e = - 1074" by (simp add: e_def xabs)
    then have "pow2 e \<le> pow2 (- 52)" by (simp add: pow2_mono)
    also have "\<dots> \<le> x * (1 / 2 ^ 52)"
      unfolding p52 using assms(1) by (intro mult_right_mono [of 1 x, simplified]) simp_all
    finally show ?thesis by simp
  qed
  have B: "e \<le> - 1"
  proof (rule ccontr)
    assume "\<not> e \<le> - 1"
    then have "1 \<le> pow2 e" by (intro pow2_ge_one) simp
    with A have "1 \<le> x / 2 ^ 52" by simp
    with assms(2) show False by simp
  qed
  have epos: "0 < pow2 e" by (rule pow2_pos)
  have big: "2 ^ 52 \<le> x / pow2 e"
  proof -
    from A have "pow2 e * 2 ^ 52 \<le> x" by (simp add: field_simps)
    then show ?thesis using epos by (simp add: field_simps)
  qed
  have "(2 ^ 52 :: int) \<le> \<lfloor>x / pow2 e\<rfloor>"
    using big by (simp add: le_floor_iff)
  also have "\<dots> \<le> q" unfolding q_def by (rule round_half_even_ge)
  finally have C: "2 ^ 52 \<le> q" .
  have "fl x = (if 971 < e \<or> (e = 971 \<and> 2 ^ 53 \<le> \<bar>q\<bar>) then signed_inf (x < 0)
      else if q = 0 then signed_zero (x < 0) else Finite (of_int q * pow2 e))"
    unfolding fl_def e_def q_def Let_def using xpos by simp
  then have flx: "fl x = Finite (of_int q * pow2 e)"
    using B C by simp
  have up: "of_int q * pow2 e \<le> x + x / 2 ^ 53"
  proof -
    have "of_int q \<le> x / pow2 e + 1 / 2" unfolding q_def by (rule round_half_even_le)
    then have "of_int q * pow2 e \<le> (x / pow2 e + 1 / 2) * pow2 e"
      using epos by (intro mult_right_mono) simp_all
    also have "\<dots> = x + pow2 e / 2" using epos by (simp add: field_simps)
    also have "\<dots> \<le> x + (x / 2 ^ 52) / 2" using A by simp
    finally show ?thesis by simp
  qed
  have grid: "of_int h - 1 / 2 \<le> of_int q * pow2 e" if h: "of_int h - 1 / 2 \<le> x" for h :: int
  proof -
    define K where "K = (2 * h - 1) * 2 ^ nat (- e - 1)"
    have "nat (- e) = Suc (nat (- e - 1))" using B by simp
    then have pe: "pow2 e = 1 / (2 * 2 ^ nat (- e - 1))"
      using B by (simp add: pow2_def)
    have Ke: "of_int K * pow2 e = of_int h - 1 / 2"
      by (simp add: K_def pe field_simps)
    then have "of_int K = (of_int h - 1 / 2) / pow2 e"
      using epos by (simp add: field_simps)
    also have "\<dots> \<le> x / pow2 e"
      using h epos by (intro divide_right_mono) simp_all
    finally have "K \<le> \<lfloor>x / pow2 e\<rfloor>" by (simp add: le_floor_iff)
    also have "\<dots> \<le> q" unfolding q_def by (rule round_half_even_ge)
    finally have "(of_int K :: rat) \<le> of_int q" by simp
    then have "of_int K * pow2 e \<le> of_int q * pow2 e"
      using epos by (intro mult_right_mono) simp_all
    with Ke show ?thesis by simp
  qed
  from flx up grid show ?thesis by (rule that)
qed

lemma lift_factor_sum:
  "js_add (js_add (Finite 1) (fl (12 / 100))) (fl (5 / 100)) = Finite lift_factor"
  unfolding lift_factor_def by code_simp

lemma projected_whole:
  assumes "1 \<le> n" and "n \<le> 10 ^ 13"
  shows "Math_round (fl (of_int n * lift_factor))
    = Finite (of_int \<lfloor>of_int n * 117 / 100 + 1 / 2 :: rat\<rfloor>)"
proof -
  let ?x = "of_int n * lift_factor :: rat"
  let ?y = "of_int n * 117 / 100 :: rat"
  define m where "m = \<lfloor>?y + 1 / 2\<rfloor>"
  have n1: "(1::rat) \<le> of_int n" and n2: "(of_int n :: rat) \<le> 10 ^ 13"
    using assms by simp_all
  have x1: "1 \<le> ?x" using n1 by (simp add: lift_factor_def)
  have x2: "?x < 2 ^ 52" using n2 by (simp add: lift_factor_def)
  have yx: "?y \<le> ?x" using n1 by (simp add: lift_factor_def)
  have m_lo: "of_int m \<le> ?y + 1 / 2" and m_hi: "?y + 1 / 2 < of_int m + 1"
    unfolding m_def by linarith+
  have "of_int (117 * n + 50) < (of_int (100 * m + 100) :: rat)"
    using m_hi by simp
  then have "117 * n + 50 < 100 * m + 100" by (simp only: of_int_less_iff)
  then have "117 * n + 50 \<le> 100 * m + 99" by simp
  then have "(of_int (117 * n + 50) :: rat) \<le> of_int (100 * m + 99)" by (simp only: of_int_le_iff)
  then have y_hi: "?y \<le> of_int m + 49 / 100" by simp
  obtain r where r: "fl ?x = Finite r" and up: "r \<le> ?x + ?x / 2 ^ 53"
    and grid: "\<And>h :: int. of_int h - 1 / 2 \<le> ?x \<Longrightarrow> of_int h - 1 / 2 \<le> r"
    using fl_mid_range [OF x1 x2] by blast
  have "of_int m - 1 / 2 \<le> ?x" using m_lo yx by linarith
  then have lo: "of_int m - 1 / 2 \<le> r" by (rule grid)
  have "of_int (1::int) - 1 / 2 \<le> ?x" using x1 by simp
  then have rpos: "0 < r" using grid [of 1] by simp
  have "?x + ?x / 2 ^ 53 - ?y \<le> 1 / 200"
    using n1 n2 by (simp add: lift_factor_def)
  with up y_hi have hi: "r < of_int m + 1 / 2" by linarith
  have "\<lfloor>r + 1 / 2\<rfloor> = m" using lo hi by (intro floor_unique) simp_all
  then show ?thesis using rpos by (simp add: r m_def Let_def)
qed

lemma projected_factor:
  "projectedWeeklyRevenue (forecast b spend) = Math_round (js_mul b (Finite lift_factor))"
  unfolding forecast_def Let_def lift_factor_sum by simp

lemma floor_half: "\<lfloor>1 / 2 :: rat\<rfloor> = 0"
  by (intro floor_unique) simp_all

lemma projected_zero:
  "Math_round (js_mul (Finite 0) (Finite lift_factor)) = Finite 0"
  by (simp add: js_mul_def signed_zero_def Let_def lift_factor_def floor_half)

lemma js_mul_whole:
  "1 \<le> n \<Longrightarrow> js_mul (Finite (of_int n)) (Finite lift_factor) = fl (of_int n * lift_factor)"
  by (simp add: js_mul_def lift_factor_def)

text \<open>
  C5, as the code has it.  For every baseline the projected revenue is \<open>Math.round\<close> of
  the baseline times one factor, the sum \<open>1 + 0.12 + 0.05\<close>: the two lifts are added, not
  compounded.  For every whole baseline from 0 to \<open>10\<^sup>1\<^sup>3\<close> this is the integer nearest to
  the baseline times 1.17, a half going up.
\<close>

theorem forecast_lift_composition:
  "projectedWeeklyRevenue (forecast b spend) = Math_round (js_mul b (Finite lift_factor))
   \<and> (0 \<le> n \<and> n \<le> 10 ^ 13 \<longrightarrow>
        projectedWeeklyRevenue (forecast (Finite (of_int n)) spend)
          = Finite (of_int \<lfloor>of_int n * 117 / 100 + 1 / 2 :: rat\<rfloor>))"
proof (intro conjI impI)
  show "projectedWeeklyRevenue (forecast b spend) = Math_round (js_mul b (Finite lift_factor))"
    by (rule projected_factor)
next
  assume range: "0 \<le> n \<and> n \<le> 10 ^ 13"
  show "projectedWeeklyRevenue (forecast (Finite (of_int n)) spend)
          = Finite (of_int \<lfloor>of_int n * 117 / 100 + 1 / 2 :: rat\<rfloor>)"
  proof (cases "n = 0")
    case True
    then show ?thesis by (simp add: projected_factor projected_zero floor_half)
  next
    case False
    with range have "1 \<le> n" and "n \<le> 10 ^ 13" by simp_all
    then show ?thesis
      by (simp only: projected_factor js_mul_whole projected_whole)
  qed
qed

theorem forecast_lift_composition_witness:
  "projectedWeeklyRevenue (forecast (Finite 10000) (Finite 1500)) = Finite 11700"
proof -
  have "\<lfloor>23401 / 2 :: rat\<rfloor> = 11700" by (intro floor_unique) simp_all
  then show ?thesis
    using forecast_lift_composition [of "Finite 10000" "Finite 1500" 10000, THEN conjunct2]
    by simp
qed

text \<open>
  The claim C5 as the specification words it fails: for a baseline of 10000 the code
  projects 11700, and the compounded lifts \<open>10000 \<times> 1.12 \<times> 1.05\<close> round to 11760, in
  binary64 as in exact arithmetic.
\<close>

theorem forecast_lifts_counterexample:
  "projectedWeeklyRevenue (forecast (Finite 10000) (Finite 1500)) = Finite 11700
   \<and> Math_round (js_mul (js_mul (Finite 10000) (fl (112 / 100))) (fl (105 / 100))) = Finite 11760
   \<and> \<lfloor>(10000 :: rat) * (112 / 100) * (105 / 100) + 1 / 2\<rfloor> = 11760"
  by code_simp

end
